theory Spec2Isabelle
  imports Complex_Main "HOL-Library.Multiset"
begin

section \<open>Values of type float64\<close>

text \<open>
  A \<open>float64\<close> is NaN, an infinity or a finite number. \<open>flt\<close> and \<open>feq\<close> are Go's \<open><\<close> and
  \<open>==\<close> on \<open>float64\<close>: every comparison with NaN is false. The sign of a zero is not
  modelled.

  The arithmetic of the machine and the functions of package \<open>math\<close> are not part of the
  repository. They are a parameter \<open>fp\<close> of everything that computes with \<open>float64\<close>:
  the four operations, \<open>math.Sin\<close>, \<open>math.Cos\<close>, \<open>math.Sqrt\<close>, \<open>math.Atan2\<close>, and the
  constant \<open>math.Pi / 180.0\<close> as a \<open>float64\<close>. Nothing is assumed of them, so what is proved
  for every \<open>fp\<close> holds for the rounded arithmetic the compiled code runs on.
\<close>

datatype float64 = NaN | NegInf | Finite real | PosInf

fun flt :: "float64 \<Rightarrow> float64 \<Rightarrow> bool" where
  "flt (Finite x) (Finite y) = (x < y)"
| "flt NegInf (Finite y) = True"
| "flt NegInf PosInf = True"
| "flt (Finite x) PosInf = True"
| "flt a b = False"


record fpu =
  fadd :: "float64 \<Rightarrow> float64 \<Rightarrow> float64"
  fsub :: "float64 \<Rightarrow> float64 \<Rightarrow> float64"
  fmul :: "float64 \<Rightarrow> float64 \<Rightarrow> float64"
  fdiv :: "float64 \<Rightarrow> float64 \<Rightarrow> float64"
  Sin :: "float64 \<Rightarrow> float64"
  Cos :: "float64 \<Rightarrow> float64"
  Sqrt :: "float64 \<Rightarrow> float64"
  Atan2 :: "float64 \<Rightarrow> float64 \<Rightarrow> float64"
  Pi_over_180 :: float64

text \<open>
  One arithmetic, to run the model on concrete inputs. Its special cases are those of
  IEEE 754 and of the documentation of package \<open>math\<close>: a result at or beyond
  \<open>2^1024 - 2^970\<close> in magnitude is an infinity, \<open>Inf - Inf\<close> and \<open>0 * Inf\<close> are NaN,
  \<open>Sin(\<plusminus>Inf)\<close> and \<open>Cos(\<plusminus>Inf)\<close> are NaN, \<open>Sqrt(x)\<close> is NaN for \<open>x < 0\<close>, and NaN goes
  through every operation. A finite result below the overflow threshold is left
  unrounded: this arithmetic is used only to evaluate runs whose outcome does not
  depend on the last bits.
\<close>

definition overflow_threshold :: real where
  "overflow_threshold = 2 ^ 1024 - 2 ^ 970"

definition frnd :: "real \<Rightarrow> float64" where
  "frnd x = (if overflow_threshold \<le> x then PosInf
             else if x \<le> - overflow_threshold then NegInf
             else Finite x)"

fun fneg :: "float64 \<Rightarrow> float64" where
  "fneg NaN = NaN"
| "fneg NegInf = PosInf"
| "fneg (Finite x) = Finite (- x)"
| "fneg PosInf = NegInf"

fun ieee_add :: "float64 \<Rightarrow> float64 \<Rightarrow> float64" where
  "ieee_add NaN b = NaN"
| "ieee_add a NaN = NaN"
| "ieee_add PosInf NegInf = NaN"
| "ieee_add NegInf PosInf = NaN"
| "ieee_add PosInf b = PosInf"
| "ieee_add a PosInf = PosInf"
| "ieee_add NegInf b = NegInf"
| "ieee_add a NegInf = NegInf"
| "ieee_add (Finite x) (Finite y) = frnd (x + y)"

definition ieee_sub :: "float64 \<Rightarrow> float64 \<Rightarrow> float64" where
  "ieee_sub a b = ieee_add a (fneg b)"

fun ieee_mul :: "float64 \<Rightarrow> float64 \<Rightarrow> float64" where
  "ieee_mul NaN b = NaN"
| "ieee_mul a NaN = NaN"
| "ieee_mul PosInf PosInf = PosInf"
| "ieee_mul PosInf NegInf = NegInf"
| "ieee_mul NegInf PosInf = NegInf"
| "ieee_mul NegInf NegInf = PosInf"
| "ieee_mul PosInf (Finite y) = (if y = 0 then NaN else if 0 < y then PosInf else NegInf)"
| "ieee_mul NegInf (Finite y) = (if y = 0 then NaN else if 0 < y then NegInf else PosInf)"
| "ieee_mul (Finite x) PosInf = (if x = 0 then NaN else if 0 < x then PosInf else NegInf)"
| "ieee_mul (Finite x) NegInf = (if x = 0 then NaN else if 0 < x then NegInf else PosInf)"
| "ieee_mul (Finite x) (Finite y) = frnd (x * y)"

fun ieee_div :: "float64 \<Rightarrow> float64 \<Rightarrow> float64" where
  "ieee_div NaN b = NaN"
| "ieee_div a NaN = NaN"
| "ieee_div PosInf (Finite y) = (if 0 \<le> y then PosInf else NegInf)"
| "ieee_div NegInf (Finite y) = (if 0 \<le> y then NegInf else PosInf)"
| "ieee_div (Finite x) (Finite y) =
     (if y = 0 then (if x = 0 then NaN else if 0 < x then PosInf else NegInf)
      else frnd (x / y))"
| "ieee_div (Finite x) b = Finite 0"
| "ieee_div a b = NaN"

fun math_Sin :: "float64 \<Rightarrow> float64" where
  "math_Sin (Finite x) = Finite (sin x)"
| "math_Sin a = NaN"

fun math_Cos :: "float64 \<Rightarrow> float64" where
  "math_Cos (Finite x) = Finite (cos x)"
| "math_Cos a = NaN"

fun math_Sqrt :: "float64 \<Rightarrow> float64" where
  "math_Sqrt (Finite x) = (if x < 0 then NaN else Finite (sqrt x))"
| "math_Sqrt PosInf = PosInf"
| "math_Sqrt a = NaN"

text \<open>The angle of the point \<open>(x, y)\<close>, in \<open>(-\<pi>, \<pi>]\<close>, and 0 at the origin.\<close>

definition angle :: "real \<Rightarrow> real \<Rightarrow> real" where
  "angle y x =
     (if x > 0 then arctan (y / x)
      else if x < 0 then (if y \<ge> 0 then arctan (y / x) + pi else arctan (y / x) - pi)
      else if y > 0 then pi / 2
      else if y < 0 then - (pi / 2)
      else 0)"

fun math_Atan2 :: "float64 \<Rightarrow> float64 \<Rightarrow> float64" where
  "math_Atan2 NaN x = NaN"
| "math_Atan2 y NaN = NaN"
| "math_Atan2 (Finite y) (Finite x) = Finite (angle y x)"
| "math_Atan2 (Finite y) PosInf = Finite 0"
| "math_Atan2 (Finite y) NegInf = (if y < 0 then Finite (- pi) else Finite pi)"
| "math_Atan2 PosInf PosInf = Finite (pi / 4)"
| "math_Atan2 NegInf PosInf = Finite (- (pi / 4))"
| "math_Atan2 PosInf NegInf = Finite (3 * pi / 4)"
| "math_Atan2 NegInf NegInf = Finite (- (3 * pi / 4))"
| "math_Atan2 PosInf (Finite x) = Finite (pi / 2)"
| "math_Atan2 NegInf (Finite x) = Finite (- (pi / 2))"

definition unrounded :: fpu where
  "unrounded =
     \<lparr>fadd = ieee_add, fsub = ieee_sub, fmul = ieee_mul, fdiv = ieee_div,
      Sin = math_Sin, Cos = math_Cos, Sqrt = math_Sqrt, Atan2 = math_Atan2,
      Pi_over_180 = Finite (pi / 180)\<rparr>"

section \<open>Request/response boundary (internal/api/handlers.go)\<close>

text \<open>
  The handlers read two things of a request: its method and the outcome of decoding its
  body as JSON. A request is therefore a method together with the decoded value, or
  \<open>None\<close> when \<open>json.NewDecoder(r.Body).Decode(&req)\<close> returns an error.

  What a handler does is recorded in an exchange: the response header map, the status
  line (\<open>None\<close> until it is written), the chunks written to the body in order, and the
  list of requests passed to a solver, oldest first.
\<close>

record 'q request =
  Method :: string
  Body :: "'q option"

datatype 'r chunk = Text string | Json 'r

record ('q, 'r) exchange =
  header :: "string \<rightharpoonup> string"
  status :: "nat option"
  body :: "'r chunk list"
  solver_calls :: "'q list"

definition fresh :: "('q, 'r) exchange" where
  "fresh = \<lparr>header = Map.empty, status = None, body = [], solver_calls = []\<rparr>"

definition MethodPost :: string where
  "MethodPost = ''POST''"

definition StatusOK :: nat where
  "StatusOK = 200"

definition StatusBadRequest :: nat where
  "StatusBadRequest = 400"

definition StatusMethodNotAllowed :: nat where
  "StatusMethodNotAllowed = 405"

text \<open>
  \<open>ResponseWriter.WriteHeader\<close>: the first call fixes the status, a later one is ignored.
  \<open>ResponseWriter.Write\<close>: writes the status 200 first when none has been written.
\<close>

definition WriteHeader :: "('q, 'r) exchange \<Rightarrow> nat \<Rightarrow> ('q, 'r) exchange" where
  "WriteHeader w code = (case status w of None \<Rightarrow> w\<lparr>status := Some code\<rparr> | Some _ \<Rightarrow> w)"

definition Write :: "('q, 'r) exchange \<Rightarrow> 'r chunk \<Rightarrow> ('q, 'r) exchange" where
  "Write w c = (let w1 = WriteHeader w StatusOK in w1\<lparr>body := body w1 @ [c]\<rparr>)"

definition Header_Set :: "('q, 'r) exchange \<Rightarrow> string \<Rightarrow> string \<Rightarrow> ('q, 'r) exchange" where
  "Header_Set w k v = w\<lparr>header := (header w)(k \<mapsto> v)\<rparr>"

text \<open>
  \<open>http.Error(w, msg, code)\<close> of the standard library: plain-text headers, the status,
  then the message and a newline.
\<close>

definition http_Error :: "('q, 'r) exchange \<Rightarrow> string \<Rightarrow> nat \<Rightarrow> ('q, 'r) exchange" where
  "http_Error w msg code =
     (let w1 = w\<lparr>header := (header w)(''Content-Length'' := None)\<rparr>;
          w2 = Header_Set w1 ''Content-Type'' ''text/plain; charset=utf-8'';
          w3 = Header_Set w2 ''X-Content-Type-Options'' ''nosniff'';
          w4 = WriteHeader w3 code
      in Write w4 (Text (msg @ [CHR 0x0A])))"

text \<open>\<open>json.NewEncoder(w).Encode(resp)\<close>: one write of the encoded value.\<close>

definition Encode :: "('q, 'r) exchange \<Rightarrow> 'r \<Rightarrow> ('q, 'r) exchange" where
  "Encode w resp = Write w (Json resp)"

text \<open>Calling a solver: its argument is logged and its result returned.\<close>

definition call_solver :: "('q \<Rightarrow> 'r) \<Rightarrow> ('q, 'r) exchange \<Rightarrow> 'q \<Rightarrow> 'r \<times> ('q, 'r) exchange" where
  "call_solver solve w req = (solve req, w\<lparr>solver_calls := solver_calls w @ [req]\<rparr>)"

subsection \<open>The request models\<close>

text \<open>
  \<open>Coordinate\<close> and \<open>OptimizationRequest\<close> as the Go structs declare them.
\<close>

record Coordinate =
  Lat :: float64
  Lon :: float64
  ID :: string

record OptimizationRequest =
  Start :: Coordinate
  Stops :: "Coordinate list"

text \<open>
  Modelled from the spec: the package \<open>models\<close> with \<open>LoadRequest\<close> is not among the
  sources. The handler reads \<open>req.Shipments\<close> and \<open>s.WeightKg\<close>; the remaining fields
  follow the interface \<open>{ vehicles: [{id, capacityKg}], shipments: [{id, weightKg}] }\<close>.
  A weight or a capacity is the number the JSON decoder produced, which is never NaN or
  an infinity, so it is a real, and its comparison with 0 is exact.
\<close>

record Vehicle =
  VehicleID :: string
  CapacityKg :: real

record Shipment =
  ShipmentID :: string
  WeightKg :: real

record LoadRequest =
  Vehicles :: "Vehicle list"
  Shipments :: "Shipment list"

subsection \<open>The three handlers\<close>

definition OptimizeRouteHandler ::
  "(OptimizationRequest \<Rightarrow> 'r) \<Rightarrow> (OptimizationRequest, 'r) exchange \<Rightarrow>
   OptimizationRequest request \<Rightarrow> (OptimizationRequest, 'r) exchange" where
  "OptimizeRouteHandler solve w r =
     (if Method r \<noteq> MethodPost then http_Error w ''Method not allowed'' StatusMethodNotAllowed
      else case Body r of
        None \<Rightarrow> http_Error w ''Invalid request body'' StatusBadRequest
      | Some req \<Rightarrow>
          (let (resp, w1) = call_solver solve w req;
               w2 = Header_Set w1 ''Content-Type'' ''application/json''
           in Encode w2 resp))"

text \<open>
  The validation loop of \<open>OptimizeLoadHandler\<close>: it returns at the first shipment whose
  weight is not positive.
\<close>

fun weights_rejected :: "Shipment list \<Rightarrow> bool" where
  "weights_rejected [] = False"
| "weights_rejected (s # ss) = (if WeightKg s \<le> 0 then True else weights_rejected ss)"

definition OptimizeLoadHandler ::
  "(LoadRequest \<Rightarrow> 'r) \<Rightarrow> (LoadRequest, 'r) exchange \<Rightarrow>
   LoadRequest request \<Rightarrow> (LoadRequest, 'r) exchange" where
  "OptimizeLoadHandler solve w r =
     (if Method r \<noteq> MethodPost then http_Error w ''Method not allowed'' StatusMethodNotAllowed
      else case Body r of
        None \<Rightarrow> http_Error w ''Invalid request body'' StatusBadRequest
      | Some req \<Rightarrow>
          if weights_rejected (Shipments req)
          then http_Error w ''Shipment weight must be positive'' StatusBadRequest
          else
            (let (resp, w1) = call_solver solve w req;
                 w2 = Header_Set w1 ''Content-Type'' ''application/json''
             in Encode w2 resp))"

definition HealthHandler :: "('q, 'r) exchange \<Rightarrow> 'q request \<Rightarrow> ('q, 'r) exchange" where
  "HealthHandler w r = Write (WriteHeader w StatusOK) (Text ''OK'')"

section \<open>Geo distance and route sequencer (the Go solver)\<close>

text \<open>
  \<open>Distance\<close>, operation by operation in the order Go evaluates them: a product
  \<open>x*y*z\<close> is \<open>(x*y)*z\<close>. The untyped constants \<open>R\<close>, \<open>2\<close> and \<open>1\<close> convert exactly.
\<close>

definition MaxFloat64 :: float64 where
  "MaxFloat64 = Finite (2 ^ 1023 * (2 - 1 / 2 ^ 52))"

definition Distance :: "fpu \<Rightarrow> Coordinate \<Rightarrow> Coordinate \<Rightarrow> float64" where
  "Distance fp p1 p2 =
     (let R = Finite 6371;
          dLat = fmul fp (fsub fp (Lat p2) (Lat p1)) (Pi_over_180 fp);
          dLon = fmul fp (fsub fp (Lon p2) (Lon p1)) (Pi_over_180 fp);
          lat1 = fmul fp (Lat p1) (Pi_over_180 fp);
          lat2 = fmul fp (Lat p2) (Pi_over_180 fp);
          a = fadd fp
                (fmul fp (Sin fp (fdiv fp dLat (Finite 2))) (Sin fp (fdiv fp dLat (Finite 2))))
                (fmul fp
                   (fmul fp
                      (fmul fp (Sin fp (fdiv fp dLon (Finite 2))) (Sin fp (fdiv fp dLon (Finite 2))))
                      (Cos fp lat1))
                   (Cos fp lat2));
          c = fmul fp (Finite 2) (Atan2 fp (Sqrt fp a) (Sqrt fp (fsub fp (Finite 1) a)))
      in fmul fp R c)"

text \<open>
  The sequencer. \<open>nearest_scan\<close> is the inner \<open>for i, stop := range remaining\<close> with
  its two variables \<open>nearestIdx\<close> and \<open>minDist\<close>; \<open>i\<close> is the index of the head of the
  list still to be scanned. \<open>tsp_step\<close> is one pass of the outer loop on the variables
  \<open>current\<close>, \<open>remaining\<close>, \<open>route\<close>: the read \<open>remaining[nearestIdx]\<close> panics when the
  index is out of range, which is where \<open>nearestIdx = -1\<close> ends.
  \<open>append(remaining[:i], remaining[i+1:]...)\<close> is \<open>remove_at i\<close>.
\<close>

datatype panic = IndexOutOfRange int nat

fun nearest_scan ::
  "fpu \<Rightarrow> Coordinate \<Rightarrow> Coordinate list \<Rightarrow> nat \<Rightarrow> int \<times> float64 \<Rightarrow> int \<times> float64" where
  "nearest_scan fp current [] i (nearestIdx, minDist) = (nearestIdx, minDist)"
| "nearest_scan fp current (stop # rest) i (nearestIdx, minDist) =
     (let dist = Distance fp current stop
      in if flt dist minDist then nearest_scan fp current rest (Suc i) (int i, dist)
         else nearest_scan fp current rest (Suc i) (nearestIdx, minDist))"

definition remove_at :: "nat \<Rightarrow> 'a list \<Rightarrow> 'a list" where
  "remove_at i xs = take i xs @ drop (Suc i) xs"

type_synonym tsp_state = "Coordinate \<times> Coordinate list \<times> Coordinate list"

definition tsp_step :: "fpu \<Rightarrow> tsp_state \<Rightarrow> panic + tsp_state" where
  "tsp_step fp s =
     (case s of (current, remaining, route) \<Rightarrow>
        (let nearestIdx = fst (nearest_scan fp current remaining 0 (- 1, MaxFloat64))
         in if nearestIdx < 0 \<or> int (length remaining) \<le> nearestIdx
            then Inl (IndexOutOfRange nearestIdx (length remaining))
            else
              (let nextStop = remaining ! nat nearestIdx
               in Inr (nextStop, remove_at (nat nearestIdx) remaining, route @ [nextStop]))))"

lemma tsp_step_shrinks:
  "tsp_step fp (c, rem, route) = Inr (c', rem', route') \<Longrightarrow> length rem' < length rem"
  by (auto simp: tsp_step_def Let_def remove_at_def split: if_splits)

function tsp_loop :: "fpu \<Rightarrow> tsp_state \<Rightarrow> panic + Coordinate list" where
  "tsp_loop fp (current, remaining, route) =
     (if length remaining > 0 then
        (case tsp_step fp (current, remaining, route) of
           Inl e \<Rightarrow> Inl e
         | Inr s' \<Rightarrow> tsp_loop fp s')
      else Inr route)"
  by pat_completeness auto
termination
  by (relation "measure (\<lambda>(fp, current, remaining, route). length remaining)")
     (auto dest: tsp_step_shrinks)

declare tsp_loop.simps [simp del]

definition SolveTSPNearestNeighbor ::
  "fpu \<Rightarrow> Coordinate \<Rightarrow> Coordinate list \<Rightarrow> panic + Coordinate list" where
  "SolveTSPNearestNeighbor fp start stops =
     (if length stops = 0 then Inr [] else tsp_loop fp (start, stops, []))"



text \<open>
  The sequencer as the route handler calls it, on the two fields of the request. A
  handler is given its solver as a function that returns; a run of the sequencer that
  panics does not come back to the handler, and appears here as the value \<open>Inl\<close>.
\<close>

definition route_solver :: "fpu \<Rightarrow> OptimizationRequest \<Rightarrow> panic + Coordinate list" where
  "route_solver fp req = SolveTSPNearestNeighbor fp (Start req) (Stops req)"

section \<open>Fleet load allocator\<close>

text \<open>
  Modelled from the spec: the package \<open>solver\<close> with \<open>OptimizeFleetAllocation\<close> is not
  among the sources; only its call in \<open>OptimizeLoadHandler\<close> is. The definitions below
  follow the component design of the allocator: shipments sorted by weight, heaviest
  first and stable; for each one, all vehicles are scanned for the smallest remaining
  capacity that is still at least the shipment's weight, the first such vehicle in
  input order winning a tie; a shipment that fits nowhere goes to the unassigned list.
  The state is the per-vehicle remaining-capacity table with the shipments assigned so
  far; the result lists, per vehicle, the identifiers assigned to it.
\<close>

record VehicleLoad =
  load_vehicle :: Vehicle
  remainingKg :: real
  assigned :: "Shipment list"

record AllocationState =
  loads :: "VehicleLoad list"
  unassigned :: "Shipment list"

record Allocation =
  Assignments :: "(string \<times> string list) list"
  Unassigned :: "string list"

definition sort_by_weight_desc :: "Shipment list \<Rightarrow> Shipment list" where
  "sort_by_weight_desc ss = sort_key (\<lambda>s. - WeightKg s) ss"

fun best_fit_scan ::
  "real \<Rightarrow> VehicleLoad list \<Rightarrow> nat \<Rightarrow> (nat \<times> real) option \<Rightarrow> (nat \<times> real) option" where
  "best_fit_scan w [] i best = best"
| "best_fit_scan w (l # ls) i best =
     (if w \<le> remainingKg l \<and> (case best of None \<Rightarrow> True | Some (_, r) \<Rightarrow> remainingKg l < r)
      then best_fit_scan w ls (Suc i) (Some (i, remainingKg l))
      else best_fit_scan w ls (Suc i) best)"

definition best_fit :: "real \<Rightarrow> VehicleLoad list \<Rightarrow> nat option" where
  "best_fit w ls = map_option fst (best_fit_scan w ls 0 None)"

definition load_shipment :: "VehicleLoad \<Rightarrow> Shipment \<Rightarrow> VehicleLoad" where
  "load_shipment l s = l\<lparr>remainingKg := remainingKg l - WeightKg s, assigned := assigned l @ [s]\<rparr>"

definition assign_shipment :: "AllocationState \<Rightarrow> Shipment \<Rightarrow> AllocationState" where
  "assign_shipment st s =
     (case best_fit (WeightKg s) (loads st) of
        None \<Rightarrow> st\<lparr>unassigned := unassigned st @ [s]\<rparr>
      | Some i \<Rightarrow> st\<lparr>loads := (loads st)[i := load_shipment (loads st ! i) s]\<rparr>)"

definition empty_load :: "Vehicle \<Rightarrow> VehicleLoad" where
  "empty_load v = \<lparr>load_vehicle = v, remainingKg = CapacityKg v, assigned = []\<rparr>"

definition initial_allocation :: "Vehicle list \<Rightarrow> AllocationState" where
  "initial_allocation vs = \<lparr>loads = map empty_load vs, unassigned = []\<rparr>"

definition allocation_after :: "nat \<Rightarrow> LoadRequest \<Rightarrow> AllocationState" where
  "allocation_after k req =
     foldl assign_shipment (initial_allocation (Vehicles req))
       (take k (sort_by_weight_desc (Shipments req)))"

definition to_allocation :: "AllocationState \<Rightarrow> Allocation" where
  "to_allocation st =
     \<lparr>Assignments = map (\<lambda>l. (VehicleID (load_vehicle l), map ShipmentID (assigned l))) (loads st),
      Unassigned = map ShipmentID (unassigned st)\<rparr>"

definition OptimizeFleetAllocation :: "LoadRequest \<Rightarrow> Allocation" where
  "OptimizeFleetAllocation req =
     to_allocation
       (foldl assign_shipment (initial_allocation (Vehicles req))
          (sort_by_weight_desc (Shipments req)))"



definition all_shipments :: "AllocationState \<Rightarrow> Shipment multiset" where
  "all_shipments st = mset (concat (map assigned (loads st))) + mset (unassigned st)"

section \<open>Trip-sheet routing service (routing.service.ts)\<close>

text \<open>
  \<open>optimizeTripSheetRoute\<close> with its collaborators as parameters: the two database
  reads, \<open>getCoordinates\<close>, \<open>optimizeRouteSequence\<close> and \<open>calculateRouteMetrics\<close>, and with
  them the arithmetic of JavaScript numbers that the function uses, \<open>*\<close>, \<open>/\<close> and
  \<open>Math.round\<close>, which is that of the doubles and of which nothing is assumed. A thrown
  error is \<open>Inl\<close>; the \<open>catch\<close> block logs and rethrows, so it is the function's result.
  The waypoints that come back from \<open>optimizeRouteSequence\<close> carry, beside the fields of
  a \<open>Waypoint\<close>, the three fields the function reads of them: \<open>order\<close>,
  \<open>distanceFromPrevious\<close> and \<open>estimatedArrival\<close>.

  A \<open>Date\<close> is its time value, the milliseconds since the epoch, or invalid.
  \<open>toISOString\<close> throws a \<open>RangeError\<close> on an invalid date; on a valid one it returns the
  date in UTC, a \<open>T\<close>, and the time as \<open>HH:mm:ss.sssZ\<close>. The date part holds no \<open>T\<close>, so
  \<open>split("T")[1].slice(0, 5)\<close> is \<open>HH:mm\<close>, which is never empty.
\<close>

datatype waypoint_type = Pickup | Drop

datatype Date = InvalidDate | Date int

record Waypoint =
  id_wp :: string
  type_wp :: waypoint_type
  shipmentId :: string
  location :: string
  latitude :: "real option"
  longitude :: "real option"

record SequencedWaypoint = Waypoint +
  order :: int
  distanceFromPrevious :: float64
  estimatedArrival :: "Date option"

record Validation =
  isValid :: bool
  errors :: "string list"

text \<open>
  Modelled from the spec: \<open>validateRouteSequence\<close> of \<open>utils/tsp\<close> is not among the
  sources. It follows the validation rules of the route validator: no duplicate
  waypoint identifiers; every drop waypoint of a shipment has an order strictly greater
  than that of the shipment's pickup waypoint; the waypoint count is twice the shipment
  count. Every violation is listed in \<open>errors\<close>, and \<open>isValid\<close> holds when there is none.
\<close>

definition duplicate_errors :: "SequencedWaypoint list \<Rightarrow> string list" where
  "duplicate_errors route =
     (if distinct (map id_wp route) then [] else [''Duplicate waypoint identifier''])"

definition order_errors :: "SequencedWaypoint list \<Rightarrow> string list" where
  "order_errors route =
     [''Drop before pickup for shipment '' @ shipmentId d.
        d \<leftarrow> route, type_wp d = Drop,
        p \<leftarrow> route, type_wp p = Pickup, shipmentId p = shipmentId d, \<not> order p < order d]"

definition completeness_errors :: "SequencedWaypoint list \<Rightarrow> string list" where
  "completeness_errors route =
     (if length route = 2 * length (remdups (map shipmentId route)) then []
      else [''Waypoint count is not twice the shipment count''])"

definition validateRouteSequence :: "SequencedWaypoint list \<Rightarrow> Validation" where
  "validateRouteSequence route =
     (let errs = duplicate_errors route @ order_errors route @ completeness_errors route
      in \<lparr>isValid = (errs = []), errors = errs\<rparr>)"

record ShipmentRow =
  id_row :: string
  referenceNumber :: string
  originAddress :: string
  destinationAddress :: string

record VehicleRow =
  registrationNumber :: string

record LatLng =
  lat :: real
  lng :: real

record StartLocation =
  start_latitude :: real
  start_longitude :: "real option"

record 'm collaborators =
  findMany :: "string list \<Rightarrow> ShipmentRow list"
  findUnique :: "string \<Rightarrow> VehicleRow option"
  getCoordinates :: "string \<Rightarrow> LatLng option"
  optimizeRouteSequence :: "Waypoint list \<Rightarrow> StartLocation \<Rightarrow> SequencedWaypoint list"
  calculateRouteMetrics :: "SequencedWaypoint list \<Rightarrow> 'm"
  js_times :: "float64 \<Rightarrow> float64 \<Rightarrow> float64"
  js_divide :: "float64 \<Rightarrow> float64 \<Rightarrow> float64"
  Math_round :: "float64 \<Rightarrow> float64"

record FormattedWaypoint =
  f_order :: int
  f_shipmentId :: string
  f_type :: waypoint_type
  f_location :: string
  f_distanceFromPrevious :: float64
  eta :: string

record 'm OptimizedRoute =
  waypoints :: "FormattedWaypoint list"
  metrics :: 'm
  route_isValid :: bool
  route_errors :: "string list"

datatype js_error = Error string | RangeError string

fun build_waypoints :: "(string \<Rightarrow> LatLng option) \<Rightarrow> ShipmentRow list \<Rightarrow> Waypoint list" where
  "build_waypoints coords [] = []"
| "build_waypoints coords (shipment # rest) =
     (let pickupCoords = coords (originAddress shipment);
          dropCoords = coords (destinationAddress shipment)
      in \<lparr>id_wp = ''pickup_'' @ id_row shipment, type_wp = Pickup,
           shipmentId = id_row shipment, location = originAddress shipment,
           latitude = map_option lat pickupCoords, longitude = map_option lng pickupCoords\<rparr> #
         \<lparr>id_wp = ''drop_'' @ id_row shipment, type_wp = Drop,
           shipmentId = id_row shipment, location = destinationAddress shipment,
           latitude = map_option lat dropCoords, longitude = map_option lng dropCoords\<rparr> #
         build_waypoints coords rest)"

definition start_location :: "Waypoint list \<Rightarrow> StartLocation" where
  "start_location wps =
     (case wps of
        [] \<Rightarrow> \<lparr>start_latitude = 19.076, start_longitude = Some 72.8777\<rparr>
      | w # _ \<Rightarrow>
          (case latitude w of
             None \<Rightarrow> \<lparr>start_latitude = 19.076, start_longitude = Some 72.8777\<rparr>
           | Some la \<Rightarrow>
               if la = 0 then \<lparr>start_latitude = 19.076, start_longitude = Some 72.8777\<rparr>
               else \<lparr>start_latitude = la, start_longitude = longitude w\<rparr>))"

definition two_digits :: "nat \<Rightarrow> string" where
  "two_digits n = [''0123456789'' ! (n div 10), ''0123456789'' ! (n mod 10)]"

definition utc_hh_mm :: "int \<Rightarrow> string" where
  "utc_hh_mm t =
     two_digits (nat (t div 3600000 mod 24)) @ '':'' @ two_digits (nat (t div 60000 mod 60))"

definition format_eta :: "Date option \<Rightarrow> js_error + string" where
  "format_eta d =
     (case d of
        None \<Rightarrow> Inr ''N/A''
      | Some InvalidDate \<Rightarrow> Inl (RangeError ''Invalid time value'')
      | Some (Date t) \<Rightarrow> Inr (utc_hh_mm t))"

definition format_waypoint ::
  "'m collaborators \<Rightarrow> SequencedWaypoint \<Rightarrow> js_error + FormattedWaypoint" where
  "format_waypoint env wp =
     (case format_eta (estimatedArrival wp) of
        Inl e \<Rightarrow> Inl e
      | Inr t \<Rightarrow>
          Inr \<lparr>f_order = order wp, f_shipmentId = shipmentId wp, f_type = type_wp wp,
               f_location = location wp,
               f_distanceFromPrevious =
                 js_divide env
                   (Math_round env (js_times env (distanceFromPrevious wp) (Finite 100)))
                   (Finite 100),
               eta = t\<rparr>)"

fun format_all ::
  "'m collaborators \<Rightarrow> SequencedWaypoint list \<Rightarrow> js_error + FormattedWaypoint list" where
  "format_all env [] = Inr []"
| "format_all env (wp # wps) =
     (case format_waypoint env wp of
        Inl e \<Rightarrow> Inl e
      | Inr f \<Rightarrow> (case format_all env wps of Inl e \<Rightarrow> Inl e | Inr fs \<Rightarrow> Inr (f # fs)))"

definition optimizeTripSheetRoute ::
  "'m collaborators \<Rightarrow> string \<Rightarrow> string list \<Rightarrow> js_error + 'm OptimizedRoute" where
  "optimizeTripSheetRoute env vehicleId shipmentIds =
     (let shipments = findMany env shipmentIds
      in case findUnique env vehicleId of
           None \<Rightarrow> Inl (Error ''Vehicle not found'')
         | Some vehicle \<Rightarrow>
             (let wps = build_waypoints (getCoordinates env) shipments;
                  startLocation = start_location wps;
                  optimized = optimizeRouteSequence env wps startLocation;
                  m = calculateRouteMetrics env optimized;
                  validation = validateRouteSequence optimized
              in case format_all env optimized of
                   Inl e \<Rightarrow> Inl e
                 | Inr formattedWaypoints \<Rightarrow>
                     Inr \<lparr>waypoints = formattedWaypoints, metrics = m,
                          route_isValid = isValid validation,
                          route_errors = errors validation\<rparr>))"

text \<open>
  A set of collaborators for a concrete run: one shipment from Pune to Mumbai, no
  coordinates, a sequencing that visits the waypoints in reverse, so that the drop
  comes first, with an arrival at 14:05 UTC on the first day of 1970 for each waypoint,
  and the unrounded arithmetic with \<open>Math.round\<close> rounding a half upwards.
\<close>

fun round_half_up :: "float64 \<Rightarrow> float64" where
  "round_half_up (Finite x) = Finite (of_int \<lfloor>x + 1 / 2\<rfloor>)"
| "round_half_up a = a"

definition sequenced :: "nat \<times> Waypoint \<Rightarrow> SequencedWaypoint" where
  "sequenced iw =
     \<lparr>id_wp = id_wp (snd iw), type_wp = type_wp (snd iw), shipmentId = shipmentId (snd iw),
      location = location (snd iw), latitude = latitude (snd iw), longitude = longitude (snd iw),
      order = int (fst iw), distanceFromPrevious = Finite 0,
      estimatedArrival = Some (Date 50700000)\<rparr>"

definition reversing_collaborators :: "nat collaborators" where
  "reversing_collaborators =
     \<lparr>findMany = (\<lambda>ids. [\<lparr>id_row = ''S1'', referenceNumber = ''R1'',
                             originAddress = ''Pune'', destinationAddress = ''Mumbai''\<rparr>]),
      findUnique = (\<lambda>vid. Some \<lparr>registrationNumber = ''MH-01''\<rparr>),
      getCoordinates = (\<lambda>a. None),
      optimizeRouteSequence = (\<lambda>wps start. map sequenced (enumerate 0 (rev wps))),
      calculateRouteMetrics = length,
      js_times = ieee_mul, js_divide = ieee_div, Math_round = round_half_up\<rparr>"

section \<open>Properties of the boundary\<close>

lemma weights_rejected_iff: "weights_rejected ss \<longleftrightarrow> (\<exists>s \<in> set ss. WeightKg s \<le> 0)"
  by (induction ss) auto

lemmas boundary_defs =
  OptimizeLoadHandler_def OptimizeRouteHandler_def http_Error_def Write_def WriteHeader_def
  Header_Set_def Encode_def call_solver_def fresh_def StatusOK_def StatusBadRequest_def
  StatusMethodNotAllowed_def Let_def

text \<open>
  C10. The health handler answers every request with status 200 and the body \<open>OK\<close>,
  whatever the method and whatever the body: it reads nothing of the request and calls
  no solver. The two optimize handlers do check the method: for any method other than
  POST they answer 405 and call no solver.
\<close>

theorem HealthHandler_any_method:
  "status (HealthHandler (fresh :: ('q, 'r) exchange) r) = Some 200 \<and>
   body (HealthHandler fresh r) = [Text ''OK''] \<and>
   solver_calls (HealthHandler fresh r) = [] \<and>
   (Method r1 \<noteq> MethodPost \<longrightarrow>
      status (OptimizeRouteHandler solve1 fresh r1) = Some 405 \<and>
      solver_calls (OptimizeRouteHandler solve1 fresh r1) = []) \<and>
   (Method r2 \<noteq> MethodPost \<longrightarrow>
      status (OptimizeLoadHandler solve2 fresh r2) = Some 405 \<and>
      solver_calls (OptimizeLoadHandler solve2 fresh r2) = [])"
  by (simp add: HealthHandler_def boundary_defs)

theorem HealthHandler_any_method_witness:
  "status (HealthHandler (fresh :: (LoadRequest, Allocation) exchange)
      \<lparr>Method = ''DELETE'', Body = None\<rparr>) = Some 200 \<and>
   body (HealthHandler (fresh :: (LoadRequest, Allocation) exchange)
      \<lparr>Method = ''POST'', Body = None\<rparr>) = [Text ''OK''] \<and>
   status (OptimizeRouteHandler (route_solver unrounded) fresh \<lparr>Method = ''DELETE'', Body = None\<rparr>) = Some 405 \<and>
   status (OptimizeLoadHandler OptimizeFleetAllocation fresh \<lparr>Method = ''GET'', Body = None\<rparr>) = Some 405"
  using HealthHandler_any_method
          [where ?'r = Allocation and ?'q = LoadRequest,
           of "\<lparr>Method = ''DELETE'', Body = None\<rparr>"
              "\<lparr>Method = ''DELETE'', Body = None\<rparr>" "route_solver unrounded"
              "\<lparr>Method = ''GET'', Body = None\<rparr>" OptimizeFleetAllocation]
        HealthHandler_any_method
          [where ?'r = Allocation and ?'q = LoadRequest,
           of "\<lparr>Method = ''POST'', Body = None\<rparr>"
              "\<lparr>Method = ''DELETE'', Body = None\<rparr>" "route_solver unrounded"
              "\<lparr>Method = ''GET'', Body = None\<rparr>" OptimizeFleetAllocation]
  by (simp add: HealthHandler_def boundary_defs MethodPost_def)

text \<open>
  C5, as the code has it. The load handler answers 400, and calls no allocator, when
  the body does not decode or some shipment weight is not positive. It reads no vehicle
  capacity: the allocator is called exactly when the method is POST, the body decodes
  and every shipment weight is strictly positive, and then the answer is 200 with the
  allocator's result.
\<close>

theorem OptimizeLoadHandler_checks_weights_only:
  "(Method r = MethodPost \<and> (Body r = None \<or> (\<exists>req. Body r = Some req \<and> (\<exists>s \<in> set (Shipments req). WeightKg s \<le> 0)))
      \<longrightarrow> status (OptimizeLoadHandler solve fresh r) = Some 400 \<and>
          solver_calls (OptimizeLoadHandler solve fresh r) = []) \<and>
   (Method r = MethodPost \<and> Body r = Some req \<and> (\<forall>s \<in> set (Shipments req). 0 < WeightKg s)
      \<longrightarrow> status (OptimizeLoadHandler solve fresh r) = Some 200 \<and>
          solver_calls (OptimizeLoadHandler solve fresh r) = [req] \<and>
          body (OptimizeLoadHandler solve fresh r) = [Json (solve req)]) \<and>
   (solver_calls (OptimizeLoadHandler solve fresh r) \<noteq> [] \<longleftrightarrow>
      Method r = MethodPost \<and>
      (\<exists>req. Body r = Some req \<and> (\<forall>s \<in> set (Shipments req). 0 < WeightKg s)))"
  by (auto simp: boundary_defs weights_rejected_iff not_le split: option.splits)
     (meson not_less)+

theorem OptimizeLoadHandler_checks_weights_only_witness:
  "status (OptimizeLoadHandler OptimizeFleetAllocation fresh
      \<lparr>Method = ''POST'', Body = Some \<lparr>Vehicles = [\<lparr>VehicleID = ''V1'', CapacityKg = 100\<rparr>],
         Shipments = [\<lparr>ShipmentID = ''S1'', WeightKg = 0\<rparr>]\<rparr>\<rparr>) = Some 400 \<and>
   solver_calls (OptimizeLoadHandler OptimizeFleetAllocation fresh
      \<lparr>Method = ''POST'', Body = Some \<lparr>Vehicles = [\<lparr>VehicleID = ''V1'', CapacityKg = 100\<rparr>],
         Shipments = [\<lparr>ShipmentID = ''S1'', WeightKg = 0\<rparr>]\<rparr>\<rparr>) = []"
  using OptimizeLoadHandler_checks_weights_only
    [of "\<lparr>Method = ''POST'', Body = Some \<lparr>Vehicles = [\<lparr>VehicleID = ''V1'', CapacityKg = 100\<rparr>],
         Shipments = [\<lparr>ShipmentID = ''S1'', WeightKg = 0\<rparr>]\<rparr>\<rparr>" OptimizeFleetAllocation]
  by (simp add: MethodPost_def)

text \<open>
  A request with a vehicle of capacity -5 and one shipment of 10 kg is not rejected:
  the allocator is called with it and the answer is 200.
\<close>

theorem OptimizeLoadHandler_capacity_counterexample:
  "CapacityKg (hd (Vehicles \<lparr>Vehicles = [\<lparr>VehicleID = ''V1'', CapacityKg = - 5\<rparr>],
         Shipments = [\<lparr>ShipmentID = ''S1'', WeightKg = 10\<rparr>]\<rparr>)) \<le> 0 \<and>
   status (OptimizeLoadHandler OptimizeFleetAllocation fresh
      \<lparr>Method = ''POST'', Body = Some \<lparr>Vehicles = [\<lparr>VehicleID = ''V1'', CapacityKg = - 5\<rparr>],
         Shipments = [\<lparr>ShipmentID = ''S1'', WeightKg = 10\<rparr>]\<rparr>\<rparr>) = Some 200 \<and>
   solver_calls (OptimizeLoadHandler OptimizeFleetAllocation fresh
      \<lparr>Method = ''POST'', Body = Some \<lparr>Vehicles = [\<lparr>VehicleID = ''V1'', CapacityKg = - 5\<rparr>],
         Shipments = [\<lparr>ShipmentID = ''S1'', WeightKg = 10\<rparr>]\<rparr>\<rparr>) =
     [\<lparr>Vehicles = [\<lparr>VehicleID = ''V1'', CapacityKg = - 5\<rparr>],
         Shipments = [\<lparr>ShipmentID = ''S1'', WeightKg = 10\<rparr>]\<rparr>]"
  by (simp add: boundary_defs MethodPost_def)




section \<open>Properties of the comparison and of the distance function\<close>

text \<open>
  What the sequencer needs of \<open><\<close>: it is a strict order on the values that are not NaN,
  and NaN is below nothing and above nothing.
\<close>

lemma flt_irrefl: "\<not> flt a a"
  by (cases a) simp_all

lemma flt_trans: "flt a b \<Longrightarrow> flt b c \<Longrightarrow> flt a c"
  by (cases a; cases b; cases c) simp_all

lemma flt_asym: "flt a b \<Longrightarrow> \<not> flt b a"
  by (cases a; cases b) simp_all

lemma flt_below_bound: "flt a m \<Longrightarrow> \<not> flt x m \<Longrightarrow> x = NaN \<or> flt a x"
  by (cases a; cases m; cases x) simp_all


lemma overflow_threshold_big: "2 ^ 1023 \<le> overflow_threshold"
proof -
  have "(2::real) ^ 970 \<le> 2 ^ 1023" by (rule power_increasing) simp_all
  moreover have "(2::real) ^ 1024 = 2 * 2 ^ 1023" by simp
  ultimately show ?thesis unfolding overflow_threshold_def by linarith
qed

lemma frnd_small: "\<bar>x\<bar> \<le> 2 ^ 20 \<Longrightarrow> frnd x = Finite x"
proof -
  assume a: "\<bar>x\<bar> \<le> 2 ^ 20"
  have "(2::real) ^ 20 < 2 ^ 1023" by (rule power_strict_increasing) simp_all
  with overflow_threshold_big a have "\<bar>x\<bar> < overflow_threshold" by linarith
  then show ?thesis by (auto simp: frnd_def)
qed


text \<open>
  Two evaluations of \<open>Distance\<close> in the unrounded arithmetic. Between a point at latitude
  \<open>10^308\<close> and one at latitude \<open>-10^308\<close> the difference of the latitudes overflows to
  an infinity, whose sine is NaN, and the distance is NaN. Between two points of the
  equator the distance is the arc between them.
\<close>

lemma Distance_overflow:
  "Distance unrounded \<lparr>Lat = Finite (10 ^ 308), Lon = Finite 0, ID = ''depot''\<rparr>
     \<lparr>Lat = Finite (- (10 ^ 308)), Lon = Finite 0, ID = ''A''\<rparr> = NaN"
proof -
  define big :: real where "big = 10 ^ 308"
  have "(2::real) ^ 1024 \<le> 2 * 10 ^ 308" by simp
  then have "- big + - big \<le> - overflow_threshold"
    unfolding overflow_threshold_def big_def by simp
  moreover have "\<not> overflow_threshold \<le> - big + - big"
    using overflow_threshold_big unfolding big_def by simp
  ultimately have d: "ieee_sub (Finite (- big)) (Finite big) = NegInf"
    by (simp add: ieee_sub_def frnd_def)
  have "Distance unrounded \<lparr>Lat = Finite big, Lon = Finite 0, ID = ''depot''\<rparr>
     \<lparr>Lat = Finite (- big), Lon = Finite 0, ID = ''A''\<rparr> = NaN"
    by (simp add: Distance_def unrounded_def d Let_def)
  then show ?thesis unfolding big_def .
qed



section \<open>Properties of the route sequencer\<close>

text \<open>
  The inner loop, for every arithmetic: either no stop has a distance below the bound it
  started with, and the two variables are unchanged, or the index found is that of a
  stop whose distance is below the bound, no stop has a smaller distance, and every
  stop before it has a greater distance or NaN.
\<close>

lemma nearest_scan_spec:
  "nearest_scan fp cur xs i (idx, m) = (idx', m') \<Longrightarrow>
     (idx' = idx \<and> m' = m \<and> (\<forall>x \<in> set xs. \<not> flt (Distance fp cur x) m)) \<or>
     (\<exists>k < length xs. idx' = int (i + k) \<and> m' = Distance fp cur (xs ! k) \<and> flt m' m \<and>
        (\<forall>x \<in> set xs. \<not> flt (Distance fp cur x) m') \<and>
        (\<forall>x \<in> set (take k xs). Distance fp cur x = NaN \<or> flt m' (Distance fp cur x)))"
proof (induction xs arbitrary: i idx m)
  case Nil
  then show ?case by simp
next
  case (Cons x xs)
  let ?d = "Distance fp cur x"
  show ?case
  proof (cases "flt ?d m")
    case True
    with Cons.prems have r: "nearest_scan fp cur xs (Suc i) (int i, ?d) = (idx', m')"
      by simp
    from Cons.IH[OF r] show ?thesis
    proof
      assume a: "idx' = int i \<and> m' = ?d \<and> (\<forall>y \<in> set xs. \<not> flt (Distance fp cur y) ?d)"
      have "0 < length (x # xs) \<and> idx' = int (i + 0) \<and> m' = Distance fp cur ((x # xs) ! 0) \<and>
        flt m' m \<and> (\<forall>y \<in> set (x # xs). \<not> flt (Distance fp cur y) m') \<and>
        (\<forall>y \<in> set (take 0 (x # xs)). Distance fp cur y = NaN \<or> flt m' (Distance fp cur y))"
        using a True by (auto simp: flt_irrefl)
      then show ?thesis by blast
    next
      assume "\<exists>k < length xs. idx' = int (Suc i + k) \<and> m' = Distance fp cur (xs ! k) \<and> flt m' ?d \<and>
        (\<forall>y \<in> set xs. \<not> flt (Distance fp cur y) m') \<and>
        (\<forall>y \<in> set (take k xs). Distance fp cur y = NaN \<or> flt m' (Distance fp cur y))"
      then obtain k where k: "k < length xs" "idx' = int (Suc i + k)" "m' = Distance fp cur (xs ! k)"
        "flt m' ?d" "\<forall>y \<in> set xs. \<not> flt (Distance fp cur y) m'"
        "\<forall>y \<in> set (take k xs). Distance fp cur y = NaN \<or> flt m' (Distance fp cur y)" by blast
      have "flt m' m" using k(4) True by (rule flt_trans)
      moreover have "\<not> flt ?d m'" using k(4) by (rule flt_asym)
      ultimately
      have "Suc k < length (x # xs) \<and> idx' = int (i + Suc k) \<and>
        m' = Distance fp cur ((x # xs) ! Suc k) \<and> flt m' m \<and>
        (\<forall>y \<in> set (x # xs). \<not> flt (Distance fp cur y) m') \<and>
        (\<forall>y \<in> set (take (Suc k) (x # xs)). Distance fp cur y = NaN \<or> flt m' (Distance fp cur y))"
        using k by auto
      then show ?thesis by blast
    qed
  next
    case False
    with Cons.prems have r: "nearest_scan fp cur xs (Suc i) (idx, m) = (idx', m')"
      by simp
    from Cons.IH[OF r] show ?thesis
    proof
      assume "idx' = idx \<and> m' = m \<and> (\<forall>y \<in> set xs. \<not> flt (Distance fp cur y) m)"
      then show ?thesis using False by auto
    next
      assume "\<exists>k < length xs. idx' = int (Suc i + k) \<and> m' = Distance fp cur (xs ! k) \<and> flt m' m \<and>
        (\<forall>y \<in> set xs. \<not> flt (Distance fp cur y) m') \<and>
        (\<forall>y \<in> set (take k xs). Distance fp cur y = NaN \<or> flt m' (Distance fp cur y))"
      then obtain k where k: "k < length xs" "idx' = int (Suc i + k)" "m' = Distance fp cur (xs ! k)"
        "flt m' m" "\<forall>y \<in> set xs. \<not> flt (Distance fp cur y) m'"
        "\<forall>y \<in> set (take k xs). Distance fp cur y = NaN \<or> flt m' (Distance fp cur y)" by blast
      have x: "?d = NaN \<or> flt m' ?d" using k(4) False by (rule flt_below_bound)
      then have "\<not> flt ?d m'" by (auto dest: flt_asym)
      with x
      have "Suc k < length (x # xs) \<and> idx' = int (i + Suc k) \<and>
        m' = Distance fp cur ((x # xs) ! Suc k) \<and> flt m' m \<and>
        (\<forall>y \<in> set (x # xs). \<not> flt (Distance fp cur y) m') \<and>
        (\<forall>y \<in> set (take (Suc k) (x # xs)). Distance fp cur y = NaN \<or> flt m' (Distance fp cur y))"
        using k by auto
      then show ?thesis by blast
    qed
  qed
qed

lemma tsp_loop_done: "tsp_loop fp (current, [], route) = Inr route"
  by (simp add: tsp_loop.simps)

lemma tsp_loop_step:
  "remaining \<noteq> [] \<Longrightarrow> tsp_step fp (current, remaining, route) = Inr s' \<Longrightarrow>
     tsp_loop fp (current, remaining, route) = tsp_loop fp s'"
  by (simp add: tsp_loop.simps)

lemma tsp_loop_panic:
  "remaining \<noteq> [] \<Longrightarrow> tsp_step fp (current, remaining, route) = Inl e \<Longrightarrow>
     tsp_loop fp (current, remaining, route) = Inl e"
  by (simp add: tsp_loop.simps)

lemma tsp_loop_Inr_step:
  assumes "remaining \<noteq> []" "tsp_loop fp (current, remaining, route) = Inr r"
  obtains s' where "tsp_step fp (current, remaining, route) = Inr s'" "tsp_loop fp s' = Inr r"
proof (cases "tsp_step fp (current, remaining, route)")
  case (Inl e)
  with assms tsp_loop_panic[OF assms(1) Inl] show ?thesis by simp
next
  case (Inr s')
  with assms tsp_loop_step[OF assms(1) Inr] that show ?thesis by simp
qed

text \<open>
  One pass of the outer loop either selects a stop or panics on the index -1, and it
  panics exactly when no stop of the pool has a distance below \<open>MaxFloat64\<close>.
\<close>

lemma tsp_step_selects:
  assumes "tsp_step fp (current, remaining, route) = Inr s'"
  shows "\<exists>k < length remaining.
           s' = (remaining ! k, remove_at k remaining, route @ [remaining ! k]) \<and>
           flt (Distance fp current (remaining ! k)) MaxFloat64 \<and>
           (\<forall>x \<in> set remaining.
              \<not> flt (Distance fp current x) (Distance fp current (remaining ! k))) \<and>
           (\<forall>x \<in> set (take k remaining).
              Distance fp current x = NaN \<or>
              flt (Distance fp current (remaining ! k)) (Distance fp current x))"
proof -
  obtain idx' m' where r: "nearest_scan fp current remaining 0 (- 1, MaxFloat64) = (idx', m')"
    by (cases "nearest_scan fp current remaining 0 (- 1, MaxFloat64)")
  from assms r have i: "0 \<le> idx'" "idx' < int (length remaining)"
    and s: "s' = (remaining ! nat idx', remove_at (nat idx') remaining,
                  route @ [remaining ! nat idx'])"
    by (auto simp: tsp_step_def Let_def split: if_splits)
  from nearest_scan_spec[OF r] i obtain k where
    k: "k < length remaining" "idx' = int (0 + k)" "m' = Distance fp current (remaining ! k)"
       "flt m' MaxFloat64" "\<forall>x \<in> set remaining. \<not> flt (Distance fp current x) m'"
       "\<forall>x \<in> set (take k remaining). Distance fp current x = NaN \<or> flt m' (Distance fp current x)"
    by auto
  from k(2) have "nat idx' = k" by simp
  with s k show ?thesis by auto
qed

lemma tsp_step_panics_iff:
  "tsp_step fp (current, remaining, route) = Inl (IndexOutOfRange (- 1) (length remaining)) \<longleftrightarrow>
     (\<forall>x \<in> set remaining. \<not> flt (Distance fp current x) MaxFloat64)"
proof -
  obtain idx' m' where r: "nearest_scan fp current remaining 0 (- 1, MaxFloat64) = (idx', m')"
    by (cases "nearest_scan fp current remaining 0 (- 1, MaxFloat64)")
  show ?thesis
  proof
    assume p: "tsp_step fp (current, remaining, route) = Inl (IndexOutOfRange (- 1) (length remaining))"
    then have "idx' = - 1"
      using r by (auto simp: tsp_step_def Let_def split: if_splits)
    with nearest_scan_spec[OF r] show "\<forall>x \<in> set remaining. \<not> flt (Distance fp current x) MaxFloat64"
      by auto
  next
    assume a: "\<forall>x \<in> set remaining. \<not> flt (Distance fp current x) MaxFloat64"
    from nearest_scan_spec[OF r] have "idx' = - 1"
    proof
      assume "idx' = - 1 \<and> m' = MaxFloat64 \<and> (\<forall>x \<in> set remaining. \<not> flt (Distance fp current x) MaxFloat64)"
      then show ?thesis by simp
    next
      assume "\<exists>k < length remaining. idx' = int (0 + k) \<and> m' = Distance fp current (remaining ! k) \<and>
        flt m' MaxFloat64 \<and> (\<forall>x \<in> set remaining. \<not> flt (Distance fp current x) m') \<and>
        (\<forall>x \<in> set (take k remaining). Distance fp current x = NaN \<or> flt m' (Distance fp current x))"
      then obtain k where "k < length remaining" "flt (Distance fp current (remaining ! k)) MaxFloat64"
        by auto
      with a show ?thesis by auto
    qed
    with r show "tsp_step fp (current, remaining, route) = Inl (IndexOutOfRange (- 1) (length remaining))"
      by (simp add: tsp_step_def Let_def)
  qed
qed

lemma tsp_step_returns_or_panics:
  "(\<exists>s'. tsp_step fp (current, remaining, route) = Inr s') \<or>
   tsp_step fp (current, remaining, route) = Inl (IndexOutOfRange (- 1) (length remaining))"
proof -
  obtain idx' m' where r: "nearest_scan fp current remaining 0 (- 1, MaxFloat64) = (idx', m')"
    by (cases "nearest_scan fp current remaining 0 (- 1, MaxFloat64)")
  from nearest_scan_spec[OF r] have "idx' = - 1 \<or> (0 \<le> idx' \<and> idx' < int (length remaining))"
    by auto
  with r show ?thesis by (auto simp: tsp_step_def Let_def)
qed

text \<open>
  A route that is returned is a permutation of the stops, for every arithmetic. The
  sequencer returns when every distance it can come to compute, from the start or a stop
  to a stop, is below \<open>MaxFloat64\<close>.
\<close>

lemma mset_remove_at: "k < length xs \<Longrightarrow> add_mset (xs ! k) (mset (remove_at k xs)) = mset xs"
  unfolding remove_at_def
  by (metis Cons_nth_drop_Suc append_take_drop_id mset.simps(2) union_mset_add_mset_right mset_append)

lemma tsp_loop_permutes:
  "tsp_loop fp (current, remaining, route) = Inr r \<Longrightarrow> mset r = mset route + mset remaining"
proof (induction remaining arbitrary: current route rule: length_induct)
  case (1 remaining)
  show ?case
  proof (cases "remaining = []")
    case True
    with 1(2) show ?thesis by (simp add: tsp_loop_done)
  next
    case False
    from tsp_loop_Inr_step[OF False 1(2)] obtain s' where
      s: "tsp_step fp (current, remaining, route) = Inr s'" and l: "tsp_loop fp s' = Inr r"
      by blast
    from tsp_step_selects[OF s] obtain k where
      k: "k < length remaining"
         "s' = (remaining ! k, remove_at k remaining, route @ [remaining ! k])"
      by blast
    have "length (remove_at k remaining) < length remaining"
      using k(1) by (simp add: remove_at_def)
    with 1(1) l k(2) have "mset r = mset (route @ [remaining ! k]) + mset (remove_at k remaining)"
      by blast
    then show ?thesis using mset_remove_at[OF k(1)] by simp
  qed
qed

lemma SolveTSP_permutes_when_it_returns:
  "SolveTSPNearestNeighbor fp start stops = Inr route \<Longrightarrow>
     mset route = mset stops \<and> length route = length stops"
proof -
  assume a: "SolveTSPNearestNeighbor fp start stops = Inr route"
  have "mset route = mset stops"
  proof (cases stops)
    case Nil
    with a show ?thesis by (simp add: SolveTSPNearestNeighbor_def)
  next
    case (Cons x xs)
    with a have "tsp_loop fp (start, stops, []) = Inr route"
      by (simp add: SolveTSPNearestNeighbor_def)
    from tsp_loop_permutes[OF this] show ?thesis by simp
  qed
  then show ?thesis using mset_eq_length by blast
qed

lemma set_remove_at_subset: "set (remove_at k xs) \<subseteq> set xs"
  unfolding remove_at_def using set_take_subset[of k xs] set_drop_subset[of "Suc k" xs] by auto

lemma tsp_loop_returns_on:
  assumes "\<forall>a \<in> insert current (set remaining). \<forall>b \<in> set remaining. flt (Distance fp a b) MaxFloat64"
  shows "\<exists>r. tsp_loop fp (current, remaining, route) = Inr r"
  using assms
proof (induction remaining arbitrary: current route rule: length_induct)
  case (1 remaining)
  show ?case
  proof (cases "remaining = []")
    case True
    then show ?thesis by (simp add: tsp_loop_done)
  next
    case False
    then obtain x where "x \<in> set remaining" by (cases remaining) auto
    with 1(2) have "\<not> (\<forall>x \<in> set remaining. \<not> flt (Distance fp current x) MaxFloat64)" by blast
    with tsp_step_panics_iff[of fp current remaining route]
      tsp_step_returns_or_panics[of fp current remaining route]
    obtain s' where s: "tsp_step fp (current, remaining, route) = Inr s'" by auto
    from tsp_step_selects[OF s] obtain k where
      k: "k < length remaining"
         "s' = (remaining ! k, remove_at k remaining, route @ [remaining ! k])"
      by blast
    have l: "length (remove_at k remaining) < length remaining"
      using k(1) by (simp add: remove_at_def)
    have m: "remaining ! k \<in> set remaining" using k(1) by simp
    have "\<forall>a \<in> insert (remaining ! k) (set (remove_at k remaining)).
            \<forall>b \<in> set (remove_at k remaining). flt (Distance fp a b) MaxFloat64"
      using 1(2) m set_remove_at_subset[of k remaining] by blast
    with 1(1) l obtain r where
      "tsp_loop fp (remaining ! k, remove_at k remaining, route @ [remaining ! k]) = Inr r"
      by blast
    with tsp_loop_step[OF False s] k(2) show ?thesis by simp
  qed
qed

lemma SolveTSP_returns_permutation:
  assumes "\<forall>a \<in> insert start (set stops). \<forall>b \<in> set stops. flt (Distance fp a b) MaxFloat64"
  shows "\<exists>route. SolveTSPNearestNeighbor fp start stops = Inr route \<and>
                 mset route = mset stops \<and> length route = length stops"
proof -
  from tsp_loop_returns_on[OF assms, of "[]"] obtain r where "tsp_loop fp (start, stops, []) = Inr r"
    by blast
  then have "\<exists>route. SolveTSPNearestNeighbor fp start stops = Inr route"
    by (simp add: SolveTSPNearestNeighbor_def)
  then show ?thesis using SolveTSP_permutes_when_it_returns by blast
qed

text \<open>
  C1. The sequencer does not return a route for every start and every list of stops.
  On the start at latitude \<open>10^308\<close> and the single stop at latitude \<open>-10^308\<close>, both
  at longitude 0, the distance is NaN, the test \<open>dist < minDist\<close> fails,
  \<open>nearestIdx\<close> is still -1 after the scan, and \<open>remaining[nearestIdx]\<close> panics: no
  one-element route is returned.
\<close>

theorem SolveTSP_panics_on_NaN_distance:
  "SolveTSPNearestNeighbor unrounded \<lparr>Lat = Finite (10 ^ 308), Lon = Finite 0, ID = ''depot''\<rparr>
     [\<lparr>Lat = Finite (- (10 ^ 308)), Lon = Finite 0, ID = ''A''\<rparr>] =
   Inl (IndexOutOfRange (- 1) 1)"
  by (simp add: SolveTSPNearestNeighbor_def tsp_loop.simps tsp_step_def Distance_overflow
      del: power_numeral One_nat_def)










section \<open>Properties of the fleet load allocator\<close>

lemma best_fit_scan_spec:
  "best_fit_scan w ls i best = Some (k, r) \<Longrightarrow>
     best = Some (k, r) \<or> (\<exists>j < length ls. k = i + j \<and> r = remainingKg (ls ! j) \<and> w \<le> r)"
proof (induction ls arbitrary: i best)
  case Nil
  then show ?case by simp
next
  case (Cons l ls)
  show ?case
  proof (cases "w \<le> remainingKg l \<and> (case best of None \<Rightarrow> True | Some (_, r) \<Rightarrow> remainingKg l < r)")
    case True
    with Cons.prems have "best_fit_scan w ls (Suc i) (Some (i, remainingKg l)) = Some (k, r)"
      by simp
    from Cons.IH[OF this] True show ?thesis by fastforce
  next
    case False
    with Cons.prems have "best_fit_scan w ls (Suc i) best = Some (k, r)"
      by (simp split: if_splits)
    from Cons.IH[OF this] show ?thesis by fastforce
  qed
qed

lemma best_fit_fits:
  "best_fit w ls = Some k \<Longrightarrow> k < length ls \<and> w \<le> remainingKg (ls ! k)"
  unfolding best_fit_def using best_fit_scan_spec[of w ls 0 None k] by auto







lemma mset_concat_update:
  "k < length xs \<Longrightarrow> mset (concat (map f (xs[k := y]))) + mset (f (xs ! k)) = mset (concat (map f xs)) + mset (f y)"
proof (induction xs arbitrary: k)
  case Nil
  then show ?case by simp
next
  case (Cons x xs)
  then show ?case by (cases k) (auto simp: ac_simps)
qed

lemma assign_conserves: "all_shipments (assign_shipment st s) = add_mset s (all_shipments st)"
proof (cases "best_fit (WeightKg s) (loads st)")
  case None
  then show ?thesis by (simp add: assign_shipment_def all_shipments_def)
next
  case (Some k)
  from best_fit_fits[OF Some] have k: "k < length (loads st)" by auto
  from mset_concat_update[OF k, of assigned "load_shipment (loads st ! k) s"]
  have "mset (concat (map assigned ((loads st)[k := load_shipment (loads st ! k) s]))) =
        add_mset s (mset (concat (map assigned (loads st))))"
    by (simp add: load_shipment_def)
  then show ?thesis using Some by (simp add: assign_shipment_def all_shipments_def)
qed

lemma foldl_assign_conserves:
  "all_shipments (foldl assign_shipment st ss) = all_shipments st + mset ss"
  by (induction ss arbitrary: st) (simp_all add: assign_conserves)


lemma OptimizeFleetAllocation_final:
  "OptimizeFleetAllocation req = to_allocation (allocation_after (length (Shipments req)) req)"
  by (simp add: OptimizeFleetAllocation_def allocation_after_def sort_by_weight_desc_def)





lemma all_shipments_after:
  "all_shipments (allocation_after k req) = mset (take k (sort_by_weight_desc (Shipments req)))"
proof -
  have "all_shipments (initial_allocation (Vehicles req)) = {#}"
    by (simp add: all_shipments_def initial_allocation_def empty_load_def comp_def)
  then show ?thesis
    unfolding allocation_after_def foldl_assign_conserves by simp
qed

lemma all_shipments_ids:
  "image_mset ShipmentID (all_shipments st) =
   mset (concat (map snd (Assignments (to_allocation st))) @ Unassigned (to_allocation st))"
proof -
  have "map ShipmentID (concat (map assigned ls)) = concat (map (\<lambda>l. map ShipmentID (assigned l)) ls)"
    for ls :: "VehicleLoad list"
    by (induction ls) simp_all
  then have "image_mset ShipmentID (mset (concat (map assigned ls))) =
             mset (concat (map (\<lambda>l. map ShipmentID (assigned l)) ls))" for ls :: "VehicleLoad list"
    by (metis mset_map)
  then show ?thesis
    by (simp add: all_shipments_def to_allocation_def comp_def)
qed

text \<open>
  C3. After \<open>k\<close> steps the shipments on the vehicles and in the unassigned list are, as a
  multiset, the first \<open>k\<close> shipments of the sorted input; at the end they are the input
  shipments, and the identifiers in the result are the identifiers of the input, each
  as often as the input has it.
\<close>

theorem allocation_conserves_shipments:
  "all_shipments (allocation_after k req) = mset (take k (sort_by_weight_desc (Shipments req))) \<and>
   mset (sort_by_weight_desc (Shipments req)) = mset (Shipments req) \<and>
   all_shipments (allocation_after (length (Shipments req)) req) = mset (Shipments req) \<and>
   mset (concat (map snd (Assignments (OptimizeFleetAllocation req))) @
         Unassigned (OptimizeFleetAllocation req)) = mset (map ShipmentID (Shipments req))"
proof (intro conjI)
  show "all_shipments (allocation_after k req) = mset (take k (sort_by_weight_desc (Shipments req)))"
    by (rule all_shipments_after)
  show s: "mset (sort_by_weight_desc (Shipments req)) = mset (Shipments req)"
    by (simp add: sort_by_weight_desc_def)
  show f: "all_shipments (allocation_after (length (Shipments req)) req) = mset (Shipments req)"
    unfolding all_shipments_after using s by (simp add: sort_by_weight_desc_def)
  show "mset (concat (map snd (Assignments (OptimizeFleetAllocation req))) @
         Unassigned (OptimizeFleetAllocation req)) = mset (map ShipmentID (Shipments req))"
    unfolding OptimizeFleetAllocation_final all_shipments_ids[symmetric] f by simp
qed

theorem allocation_conserves_shipments_witness:
  "OptimizeFleetAllocation \<lparr>Vehicles = [\<lparr>VehicleID = ''V1'', CapacityKg = 100\<rparr>],
       Shipments = [\<lparr>ShipmentID = ''S1'', WeightKg = 60\<rparr>, \<lparr>ShipmentID = ''S2'', WeightKg = 50\<rparr>]\<rparr> =
     \<lparr>Assignments = [(''V1'', [''S1''])], Unassigned = [''S2'']\<rparr> \<and>
   mset ([''S1''] @ [''S2'']) = mset [''S1'', ''S2'']"
proof -
  have e: "OptimizeFleetAllocation \<lparr>Vehicles = [\<lparr>VehicleID = ''V1'', CapacityKg = 100\<rparr>],
       Shipments = [\<lparr>ShipmentID = ''S1'', WeightKg = 60\<rparr>, \<lparr>ShipmentID = ''S2'', WeightKg = 50\<rparr>]\<rparr> =
     \<lparr>Assignments = [(''V1'', [''S1''])], Unassigned = [''S2'']\<rparr>"
    by (simp add: OptimizeFleetAllocation_def sort_by_weight_desc_def initial_allocation_def
        empty_load_def assign_shipment_def best_fit_def load_shipment_def to_allocation_def)
  from allocation_conserves_shipments
    [of 0 "\<lparr>Vehicles = [\<lparr>VehicleID = ''V1'', CapacityKg = 100\<rparr>],
       Shipments = [\<lparr>ShipmentID = ''S1'', WeightKg = 60\<rparr>, \<lparr>ShipmentID = ''S2'', WeightKg = 50\<rparr>]\<rparr>"]
  show ?thesis unfolding e by simp
qed

section \<open>Properties of the trip-sheet routing service\<close>

lemma order_errors_member:
  assumes "d \<in> set route" "p \<in> set route" "type_wp d = Drop" "type_wp p = Pickup"
    "shipmentId p = shipmentId d" "order d \<le> order p"
  shows "''Drop before pickup for shipment '' @ shipmentId d \<in> set (order_errors route)"
  using assms unfolding order_errors_def by (auto simp: not_less)

lemma format_all_orders:
  "format_all env route = Inr fs \<Longrightarrow> map f_order fs = map order route \<and> length fs = length route"
proof (induction route arbitrary: fs)
  case Nil
  then show ?case by simp
next
  case (Cons wp wps)
  then show ?case
    by (auto simp: format_waypoint_def split: sum.splits)
qed

text \<open>
  C8. When the vehicle exists and the sequenced route, which can be formatted, holds a
  drop waypoint whose order is not greater than that of a pickup waypoint of the same
  shipment, the route is returned all the same, every waypoint in its place, with
  \<open>isValid\<close> false and the violation listed in \<open>errors\<close>.
\<close>

theorem drop_before_pickup_is_reported:
  assumes "findUnique env vehicleId = Some v"
    and "optimized =
           optimizeRouteSequence env
             (build_waypoints (getCoordinates env) (findMany env shipmentIds))
             (start_location (build_waypoints (getCoordinates env) (findMany env shipmentIds)))"
    and "format_all env optimized = Inr fs"
    and "d \<in> set optimized" "p \<in> set optimized" "type_wp d = Drop" "type_wp p = Pickup"
    and "shipmentId p = shipmentId d" "order d \<le> order p"
  shows "\<exists>r. optimizeTripSheetRoute env vehicleId shipmentIds = Inr r \<and>
             waypoints r = fs \<and> map f_order (waypoints r) = map order optimized \<and>
             length (waypoints r) = length optimized \<and>
             \<not> route_isValid r \<and> route_errors r \<noteq> [] \<and>
             ''Drop before pickup for shipment '' @ shipmentId d \<in> set (route_errors r)"
proof -
  have m: "''Drop before pickup for shipment '' @ shipmentId d \<in> set (order_errors optimized)"
    using assms(4-9) by (rule order_errors_member)
  then have e: "''Drop before pickup for shipment '' @ shipmentId d
                  \<in> set (errors (validateRouteSequence optimized))"
    by (simp add: validateRouteSequence_def Let_def)
  then have ne: "errors (validateRouteSequence optimized) \<noteq> []" by auto
  then have nv: "\<not> isValid (validateRouteSequence optimized)"
    by (simp add: validateRouteSequence_def Let_def)
  show ?thesis
    using assms(1,3) e ne nv format_all_orders[OF assms(3)]
    unfolding optimizeTripSheetRoute_def Let_def assms(2)[symmetric]
    by simp
qed

lemma utc_hh_mm_example: "utc_hh_mm 50700000 = ''14:05''"
  by (simp add: utc_hh_mm_def two_digits_def)

lemma frnd_zero: "frnd 0 = Finite 0"
  by (rule frnd_small) simp

theorem drop_before_pickup_is_reported_witness:
  "optimizeTripSheetRoute reversing_collaborators ''V1'' [''S1''] =
     Inr \<lparr>waypoints =
            [\<lparr>f_order = 0, f_shipmentId = ''S1'', f_type = Drop, f_location = ''Mumbai'',
              f_distanceFromPrevious = Finite 0, eta = ''14:05''\<rparr>,
             \<lparr>f_order = 1, f_shipmentId = ''S1'', f_type = Pickup, f_location = ''Pune'',
              f_distanceFromPrevious = Finite 0, eta = ''14:05''\<rparr>],
          metrics = 2, route_isValid = False,
          route_errors = [''Drop before pickup for shipment S1'']\<rparr>"
proof -
  define dW where "dW = \<lparr>id_wp = ''drop_S1'', type_wp = Drop, shipmentId = ''S1'',
      location = ''Mumbai'', latitude = None, longitude = None,
      order = 0, distanceFromPrevious = Finite 0, estimatedArrival = Some (Date 50700000)\<rparr>"
  define pW where "pW = \<lparr>id_wp = ''pickup_S1'', type_wp = Pickup, shipmentId = ''S1'',
      location = ''Pune'', latitude = None, longitude = None,
      order = 1, distanceFromPrevious = Finite 0, estimatedArrival = Some (Date 50700000)\<rparr>"
  define fs where "fs =
            [\<lparr>f_order = 0, f_shipmentId = ''S1'', f_type = Drop, f_location = ''Mumbai'',
              f_distanceFromPrevious = Finite 0, eta = ''14:05''\<rparr>,
             \<lparr>f_order = 1, f_shipmentId = ''S1'', f_type = Pickup, f_location = ''Pune'',
              f_distanceFromPrevious = Finite 0, eta = ''14:05''\<rparr>]"
  have o: "[dW, pW] =
           optimizeRouteSequence reversing_collaborators
             (build_waypoints (getCoordinates reversing_collaborators)
                (findMany reversing_collaborators [''S1'']))
             (start_location (build_waypoints (getCoordinates reversing_collaborators)
                (findMany reversing_collaborators [''S1''])))"
    by (simp add: reversing_collaborators_def sequenced_def dW_def pW_def)
  have v: "findUnique reversing_collaborators ''V1'' = Some \<lparr>registrationNumber = ''MH-01''\<rparr>"
    by (simp add: reversing_collaborators_def)
  have a: "js_times reversing_collaborators = ieee_mul" "js_divide reversing_collaborators = ieee_div"
    "Math_round reversing_collaborators = round_half_up"
    by (simp_all add: reversing_collaborators_def)
  have f: "format_all reversing_collaborators [dW, pW] = Inr fs"
    by (simp add: format_waypoint_def format_eta_def a frnd_zero utc_hh_mm_example
        dW_def pW_def fs_def)
  have "\<exists>r. optimizeTripSheetRoute reversing_collaborators ''V1'' [''S1''] = Inr r \<and>
             waypoints r = fs \<and> map f_order (waypoints r) = map order [dW, pW] \<and>
             length (waypoints r) = length [dW, pW] \<and>
             \<not> route_isValid r \<and> route_errors r \<noteq> [] \<and>
             ''Drop before pickup for shipment '' @ shipmentId dW \<in> set (route_errors r)"
    by (rule drop_before_pickup_is_reported[OF v o f, of dW pW])
       (simp_all add: dW_def pW_def)
  then obtain r where r: "optimizeTripSheetRoute reversing_collaborators ''V1'' [''S1''] = Inr r"
    "waypoints r = fs" "\<not> route_isValid r" by blast
  have m: "metrics r = 2" "route_errors r = [''Drop before pickup for shipment S1'']"
    using r(1) unfolding optimizeTripSheetRoute_def Let_def o[symmetric] v f
    by (auto simp: reversing_collaborators_def validateRouteSequence_def duplicate_errors_def
        order_errors_def completeness_errors_def dW_def pW_def)
  have "r = \<lparr>waypoints = fs, metrics = 2, route_isValid = False,
          route_errors = [''Drop before pickup for shipment S1'']\<rparr>"
    using r(2,3) m by (cases r) simp
  with r(1) show ?thesis unfolding fs_def by simp
qed

end
